theory Spec2Isabelle
  imports Main "HOL-Library.Sublist"
begin

section \<open>Content moderation service: the scan pipeline of \<open>app.py\<close>\<close>

text \<open>
  A shallow embedding of class \<open>ContentModerator\<close> of
  \<open>src/docker/content-moderator/app.py\<close>.

  Python strings are modelled as \<open>string\<close>, each character standing for the code point
  of the same number (so the model covers strings whose code points are below 256); on
  these the library functions below (\<open>lower\<close>, \<open>strip\<close>, \<open>lstrip\<close>, \<open>split\<close>,
  \<open>in\<close>, \<open>startswith\<close>, \<open>os.path.splitext\<close>) are written out as Python defines them.
  Python's \<open>needle in s\<close> on strings is \<open>sublist needle s\<close> and \<open>s.startswith(p)\<close> is
  \<open>prefix p s\<close>, both of \<open>HOL-Library.Sublist\<close>.

  Everything outside the process (libmagic, the file system, the ClamAV daemon, Pillow,
  hashlib, the clock) is a field of the record \<open>world\<close>: a function from the path to what
  the call returns, or to the exception it raises. The exceptions of the model are the
  instances of Python's \<open>Exception\<close>, which is what \<open>except Exception\<close> catches; a file
  is a finite sequence of chunks.
\<close>

subsection \<open>Python values\<close>

datatype exn = Exception (str_of: string)

datatype level = INFO | ERROR

type_synonym log = "(level \<times> string) list"

text \<open>
  A Python call: the value returned or the exception raised, and the lines it wrote to
  \<open>logger\<close>.
\<close>

type_synonym 'a py = "(exn + 'a) \<times> log"

text \<open>
  \<open>try: body except Exception as e: handler\<close>, where the body ends in a \<open>return\<close>.
\<close>

definition try_except :: "'a py \<Rightarrow> (exn \<Rightarrow> 'a py) \<Rightarrow> 'a py" where
  "try_except body handler =
     (case body of
        (Inr v, lg) \<Rightarrow> (Inr v, lg)
      | (Inl e, lg) \<Rightarrow> (case handler e of (r, lg') \<Rightarrow> (r, lg @ lg')))"

subsection \<open>String functions of the Python library\<close>

text \<open>\<open>str.isspace\<close> on one character of code point below 256.\<close>

definition isspace :: "char \<Rightarrow> bool" where
  "isspace c = ((of_char c :: nat) \<in> {9, 10, 11, 12, 13, 28, 29, 30, 31, 32, 133, 160})"

text \<open>\<open>str.strip()\<close>: whitespace removed at both ends.\<close>

definition strip :: "string \<Rightarrow> string" where
  "strip s = rev (dropWhile isspace (rev (dropWhile isspace s)))"

text \<open>\<open>str.lstrip(chars)\<close>.\<close>

definition lstrip :: "string \<Rightarrow> string \<Rightarrow> string" where
  "lstrip chars s = dropWhile (\<lambda>c. c \<in> set chars) s"

text \<open>
  \<open>str.lower()\<close> on code points below 256: \<open>A\<close>-\<open>Z\<close> and the Latin-1 capitals
  192-214, 216-222 move up by 32.
\<close>

definition lower_char :: "char \<Rightarrow> char" where
  "lower_char c =
     (let n = (of_char c :: nat)
      in if (65 \<le> n \<and> n \<le> 90) \<or> (192 \<le> n \<and> n \<le> 214) \<or> (216 \<le> n \<and> n \<le> 222)
         then char_of (n + 32) else c)"

definition lower :: "string \<Rightarrow> string" where
  "lower s = map lower_char s"

text \<open>\<open>str.split(sep)\<close> with a one-character separator: the fields, never an empty list.\<close>

fun split :: "char \<Rightarrow> string \<Rightarrow> string list" where
  "split sep [] = [[]]"
| "split sep (c # cs) =
     (case split sep cs of
        [] \<Rightarrow> [[c]]
      | field # fields \<Rightarrow>
          if c = sep then [] # field # fields else (c # field) # fields)"

text \<open>\<open>str.rfind(c)\<close>: the index of the last occurrence, or -1.\<close>

definition rfind :: "string \<Rightarrow> char \<Rightarrow> int" where
  "rfind p c =
     (if c \<in> set p
      then int (length p) - 1 - int (length (takeWhile (\<lambda>x. x \<noteq> c) (rev p)))
      else - 1)"

text \<open>
  \<open>os.path.splitext\<close> of \<open>posixpath\<close>: the extension starts at the last dot of the last
  path component, unless only dots precede it there.
\<close>

definition splitext :: "string \<Rightarrow> string \<times> string" where
  "splitext p =
     (let sepIndex = rfind p CHR ''/'';
          dotIndex = rfind p CHR ''.''
      in if dotIndex > sepIndex \<and>
            list_ex (\<lambda>c. c \<noteq> CHR ''.'')
              (take (nat (dotIndex - (sepIndex + 1))) (drop (nat (sepIndex + 1)) p))
         then (take (nat dotIndex) p, drop (nat dotIndex) p)
         else (p, []))"

subsection \<open>The world outside the process\<close>

text \<open>What \<open>Image.open\<close> gives: \<open>img.size\<close>, \<open>img.mode\<close> and the keys of \<open>img.info\<close>.\<close>

record image =
  img_size :: "int \<times> int"
  img_mode :: string
  img_info :: "string list"

record world =
  utcnow_isoformat :: string
  mime_from_file :: "string \<Rightarrow> exn + string"
  getsize :: "string \<Rightarrow> exn + int"
  clamd_exchange :: "string \<Rightarrow> exn + string"
  image_open :: "string \<Rightarrow> exn + image"
  open_rb :: "string \<Rightarrow> exn + (exn + string) list"
  sha256_hexdigest :: "string \<Rightarrow> string"

text \<open>
  \<^item> \<open>utcnow_isoformat\<close>: \<open>datetime.utcnow().isoformat()\<close>.
  \<^item> \<open>mime_from_file\<close>: \<open>self.mime.from_file(file_path)\<close>.
  \<^item> \<open>getsize\<close>: \<open>os.path.getsize(file_path)\<close>.
  \<^item> \<open>clamd_exchange\<close>: lines 87-99 of \<open>scan_for_malware\<close>, from the command sent to the
    decoded text received (before \<open>strip\<close>), or the exception of \<open>socket\<close>, \<open>connect\<close>,
    \<open>encode\<close>, \<open>send\<close>, \<open>recv\<close>, \<open>decode\<close> or \<open>close\<close>.
  \<^item> \<open>image_open\<close>: \<open>Image.open(file_path)\<close>.
  \<^item> \<open>open_rb\<close>: \<open>open(file_path, "rb")\<close> and the results of the successive
    \<open>f.read(4096)\<close>; after the last one the file reads as empty.
  \<^item> \<open>sha256_hexdigest\<close>: the hex digest of \<open>hashlib.sha256\<close> over the bytes fed to it.
\<close>

subsection \<open>Configuration\<close>

text \<open>The dictionary \<open>ALLOWED_EXTENSIONS\<close>, in its insertion order.\<close>

definition ALLOWED_EXTENSIONS :: "(string \<times> string list) list" where
  "ALLOWED_EXTENSIONS =
     [(''image'', [''jpg'', ''jpeg'', ''png'', ''gif'', ''bmp'', ''webp'']),
      (''video'', [''mp4'', ''avi'', ''mov'', ''wmv'', ''flv'', ''webm'']),
      (''document'', [''pdf'', ''doc'', ''docx'', ''txt'', ''rtf'', ''odt''])]"

definition MAX_FILE_SIZE :: int where
  "MAX_FILE_SIZE = 10 * 1024 * 1024"

subsection \<open>Type validation\<close>

definition mime_categories :: "(string \<times> string list) list" where
  "mime_categories =
     [(''image'', [''image/'']),
      (''video'', [''video/'']),
      (''document'',
         [''application/pdf'', ''application/msword'', ''text/'', ''application/vnd.''])]"

text \<open>\<open>_mime_matches_extension\<close>.\<close>

definition mime_matches_extension :: "string \<Rightarrow> string \<Rightarrow> bool" where
  "mime_matches_extension mime_type category =
     list_ex (\<lambda>pre. prefix pre mime_type)
       (case map_of mime_categories category of None \<Rightarrow> [] | Some ps \<Rightarrow> ps)"

text \<open>
  The loop of \<open>validate_file_type\<close> over \<open>ALLOWED_EXTENSIONS.items()\<close>: the first category
  that has the extension and whose prefixes the MIME type matches.
\<close>

fun first_category :: "(string \<times> string list) list \<Rightarrow> string \<Rightarrow> string \<Rightarrow> string option" where
  "first_category [] ext mime_type = None"
| "first_category ((category, extensions) # rest) ext mime_type =
     (if ext \<in> set extensions \<and> mime_matches_extension mime_type category
      then Some category
      else first_category rest ext mime_type)"

text \<open>Lines 46-47: the extension, lower case, without its dot.\<close>

definition file_ext :: "string \<Rightarrow> string" where
  "file_ext file_path = lstrip ''.'' (lower (snd (splitext file_path)))"

definition validate_file_type_try ::
    "world \<Rightarrow> string \<Rightarrow> (bool \<times> string option \<times> string option) py" where
  "validate_file_type_try w file_path =
     (case mime_from_file w file_path of
        Inl e \<Rightarrow> (Inl e, [])
      | Inr mime_type \<Rightarrow>
          (case first_category ALLOWED_EXTENSIONS (file_ext file_path) mime_type of
             Some category \<Rightarrow> (Inr (True, Some category, Some mime_type), [])
           | None \<Rightarrow> (Inr (False, None, Some mime_type), [])))"

definition validate_file_type ::
    "world \<Rightarrow> string \<Rightarrow> (bool \<times> string option \<times> string option) py" where
  "validate_file_type w file_path =
     try_except (validate_file_type_try w file_path)
       (\<lambda>e. (Inr (False, None, None),
              [(ERROR, ''Error validating file type: '' @ str_of e)]))"

subsection \<open>Size validation\<close>

definition validate_file_size :: "world \<Rightarrow> string \<Rightarrow> int \<Rightarrow> (bool \<times> int) py" where
  "validate_file_size w file_path max_size =
     try_except
       (case getsize w file_path of
          Inl e \<Rightarrow> (Inl e, [])
        | Inr sz \<Rightarrow> (Inr (sz \<le> max_size, sz), []))
       (\<lambda>e. (Inr (False, 0), [(ERROR, ''Error validating file size: '' @ str_of e)]))"

subsection \<open>Malware scan\<close>

text \<open>
  Lines 101-108, the parsing of the daemon's response; \<open>response.split(":")[1]\<close> raises
  \<open>IndexError\<close> when the response has no colon.
\<close>

definition parse_response :: "string \<Rightarrow> exn + bool \<times> string" where
  "parse_response response =
     (if sublist ''OK'' response then Inr (True, ''Clean'')
      else if sublist ''FOUND'' response then
        (case split CHR '':'' response of
           _ # virus_name # _ \<Rightarrow> Inr (False, strip virus_name)
         | _ \<Rightarrow> Inl (Exception ''list index out of range''))
      else Inr (False, ''Scan failed''))"

definition scan_for_malware_try :: "world \<Rightarrow> string \<Rightarrow> (bool \<times> string) py" where
  "scan_for_malware_try w file_path =
     (case clamd_exchange w (''SCAN '' @ file_path @ [CHR 0x0A]) of
        Inl e \<Rightarrow> (Inl e, [])
      | Inr received \<Rightarrow> (parse_response (strip received), []))"

definition scan_for_malware :: "world \<Rightarrow> string \<Rightarrow> (bool \<times> string) py" where
  "scan_for_malware w file_path =
     try_except (scan_for_malware_try w file_path)
       (\<lambda>e. (Inr (False, ''Scan error: '' @ str_of e),
              [(ERROR, ''Error scanning for malware: '' @ str_of e)]))"

subsection \<open>Image heuristics\<close>

definition analyze_image_content_try :: "world \<Rightarrow> string \<Rightarrow> (bool \<times> string) py" where
  "analyze_image_content_try w file_path =
     (case image_open w file_path of
        Inl e \<Rightarrow> (Inl e, [])
      | Inr img \<Rightarrow>
          (case img_size img of (width, height) \<Rightarrow>
             if width < 10 \<or> height < 10 then (Inr (False, ''Image too small''), [])
             else if width > 10000 \<or> height > 10000 then
               (Inr (False, ''Image too large''), [])
             else (Inr (True, ''Image appears safe''),
                   if img_mode img \<in> set [''RGBA'', ''LA'']
                      \<or> ''transparency'' \<in> set (img_info img)
                   then [(INFO, ''Image contains transparency'')] else [])))"

definition analyze_image_content :: "world \<Rightarrow> string \<Rightarrow> (bool \<times> string) py" where
  "analyze_image_content w file_path =
     try_except (analyze_image_content_try w file_path)
       (\<lambda>e. (Inr (False, ''Analysis error: '' @ str_of e),
              [(ERROR, ''Error analyzing image content: '' @ str_of e)]))"

subsection \<open>Hashing\<close>

text \<open>
  The loop \<open>for chunk in iter(lambda: f.read(4096), b"")\<close>: it feeds each chunk to the
  digest and stops at the first empty one.
\<close>

fun read_chunks :: "(exn + string) list \<Rightarrow> string \<Rightarrow> exn + string" where
  "read_chunks [] fed = Inr fed"
| "read_chunks (Inl e # rest) fed = Inl e"
| "read_chunks (Inr chunk # rest) fed =
     (if chunk = [] then Inr fed else read_chunks rest (fed @ chunk))"

definition generate_file_hash_try :: "world \<Rightarrow> string \<Rightarrow> string option py" where
  "generate_file_hash_try w file_path =
     (case open_rb w file_path of
        Inl e \<Rightarrow> (Inl e, [])
      | Inr reads \<Rightarrow>
          (case read_chunks reads [] of
             Inl e \<Rightarrow> (Inl e, [])
           | Inr fed \<Rightarrow> (Inr (Some (sha256_hexdigest w fed)), [])))"

definition generate_file_hash :: "world \<Rightarrow> string \<Rightarrow> string option py" where
  "generate_file_hash w file_path =
     try_except (generate_file_hash_try w file_path)
       (\<lambda>e. (Inr None, [(ERROR, ''Error generating file hash: '' @ str_of e)]))"

subsection \<open>The report and the pipeline\<close>

record check =
  passed :: bool
  details :: string

text \<open>
  The dictionary \<open>results\<close>. Its two nested dictionaries \<open>{'clean': .., 'details': ..}\<close>
  and \<open>{'safe': .., 'details': ..}\<close> are both a \<open>check\<close>, whose field \<open>passed\<close> is the key
  \<open>clean\<close> of \<open>malware_scan\<close> and the key \<open>safe\<close> of \<open>content_analysis\<close>.
\<close>

record report =
  file_path :: string
  timestamp :: string
  file_hash :: "string option"
  file_size :: int
  file_type_valid :: bool
  file_category :: "string option"
  mime_type :: "string option"
  size_valid :: bool
  malware_scan :: check
  content_analysis :: check
  overall_safe :: bool
  errors :: "string list"

definition initial_results :: "world \<Rightarrow> string \<Rightarrow> report" where
  "initial_results w path =
     \<lparr> file_path = path,
       timestamp = utcnow_isoformat w,
       file_hash = None,
       file_size = 0,
       file_type_valid = False,
       file_category = None,
       mime_type = None,
       size_valid = False,
       malware_scan = \<lparr>passed = False, details = ''Not scanned''\<rparr>,
       content_analysis = \<lparr>passed = False, details = ''Not analyzed''\<rparr>,
       overall_safe = False,
       errors = [] \<rparr>"

text \<open>
  The \<open>try\<close> block of \<open>comprehensive_scan\<close> (lines 168-225), from the dictionary as built
  at lines 153-166. It gives the dictionary as it is when the block is left, and the
  exception if it is left by one; \<open>None\<close> stands for the early \<open>return results\<close> and
  for reaching the end of the block alike, since both lead to \<open>return results\<close>.
\<close>

definition scan_try :: "world \<Rightarrow> string \<Rightarrow> report \<Rightarrow> (exn option \<times> report) \<times> log" where
  "scan_try w path results0 =
     (case generate_file_hash w path of
        (Inl e, l1) \<Rightarrow> ((Some e, results0), l1)
      | (Inr h, l1) \<Rightarrow>
     let results1 = results0\<lparr>file_hash := h\<rparr> in
     (case validate_file_type w path of
        (Inl e, l2) \<Rightarrow> ((Some e, results1), l1 @ l2)
      | (Inr (type_valid, category, mime), l2) \<Rightarrow>
     let results2 = results1\<lparr>file_type_valid := type_valid, file_category := category,
                             mime_type := mime\<rparr> in
     if \<not> type_valid then
       ((None, results2\<lparr>errors := errors results2 @ [''Invalid file type'']\<rparr>), l1 @ l2)
     else
     (case validate_file_size w path MAX_FILE_SIZE of
        (Inl e, l3) \<Rightarrow> ((Some e, results2), l1 @ l2 @ l3)
      | (Inr (size_ok, sz), l3) \<Rightarrow>
     let results3 = results2\<lparr>size_valid := size_ok, file_size := sz\<rparr> in
     if \<not> size_ok then
       ((None, results3\<lparr>errors := errors results3 @ [''File too large'']\<rparr>), l1 @ l2 @ l3)
     else
     (case scan_for_malware w path of
        (Inl e, l4) \<Rightarrow> ((Some e, results3), l1 @ l2 @ l3 @ l4)
      | (Inr (malware_clean, malware_details), l4) \<Rightarrow>
     let results4 = results3\<lparr>malware_scan :=
                               \<lparr>passed = malware_clean, details = malware_details\<rparr>\<rparr> in
     if \<not> malware_clean then
       ((None, results4\<lparr>errors := errors results4 @ [''Malware detected: '' @ malware_details]\<rparr>),
        l1 @ l2 @ l3 @ l4)
     else
     if category = Some ''image'' then
       (case analyze_image_content w path of
          (Inl e, l5) \<Rightarrow> ((Some e, results4), l1 @ l2 @ l3 @ l4 @ l5)
        | (Inr (content_safe, content_details), l5) \<Rightarrow>
       let results5 = results4\<lparr>content_analysis :=
                                 \<lparr>passed = content_safe, details = content_details\<rparr>\<rparr> in
       if \<not> content_safe then
         ((None, results5\<lparr>errors := errors results5 @ [''Content issue: '' @ content_details]\<rparr>),
          l1 @ l2 @ l3 @ l4 @ l5)
       else
         ((None, results5\<lparr>overall_safe :=
                   file_type_valid results5 \<and> size_valid results5
                   \<and> passed (malware_scan results5) \<and> passed (content_analysis results5)\<rparr>),
          l1 @ l2 @ l3 @ l4 @ l5))
     else
       (let results5 = results4\<lparr>content_analysis :=
                 \<lparr>passed = True, details = ''Content analysis not applicable''\<rparr>\<rparr> in
        ((None, results5\<lparr>overall_safe :=
                  file_type_valid results5 \<and> size_valid results5
                  \<and> passed (malware_scan results5) \<and> passed (content_analysis results5)\<rparr>),
         l1 @ l2 @ l3 @ l4))))))"

text \<open>
  \<open>comprehensive_scan\<close>: the \<open>try\<close> block, the handler of lines 227-229 when the block
  raised, and \<open>return results\<close>.
\<close>

definition comprehensive_scan :: "world \<Rightarrow> string \<Rightarrow> report py" where
  "comprehensive_scan w path =
     (case scan_try w path (initial_results w path) of
        ((None, results), lg) \<Rightarrow> (Inr results, lg)
      | ((Some e, results), lg) \<Rightarrow>
          (Inr (results\<lparr>errors := errors results @ [''Scan error: '' @ str_of e]\<rparr>),
           lg @ [(ERROR, ''Error in comprehensive scan: '' @ str_of e)]))"

subsection \<open>A sample world\<close>

text \<open>
  A 1 KiB PNG of 100 by 100 pixels whose three bytes of content are \<open>abc\<close>, a daemon that
  answers \<open>stream: OK\<close>; the concrete runs below are variations of it.
\<close>

definition sample_image :: image where
  "sample_image = \<lparr> img_size = (100, 100), img_mode = ''RGB'', img_info = [] \<rparr>"

definition sample_world :: world where
  "sample_world =
     \<lparr> utcnow_isoformat = ''2024-01-01T00:00:00'',
       mime_from_file = (\<lambda>_. Inr ''image/png''),
       getsize = (\<lambda>_. Inr 1024),
       clamd_exchange = (\<lambda>_. Inr ''stream: OK''),
       image_open = (\<lambda>_. Inr sample_image),
       open_rb = (\<lambda>_. Inr [Inr ''abc'']),
       sha256_hexdigest = (\<lambda>_.
         ''ba7816bf8f01cfea414140de5dae2223b00361a396177a9cb410ff61f20015ad'') \<rparr>"

text \<open>A world in which every call to the outside raises.\<close>

definition faulty_world :: world where
  "faulty_world =
     \<lparr> utcnow_isoformat = ''2024-01-01T00:00:00'',
       mime_from_file = (\<lambda>_. Inl (Exception ''cannot open'')),
       getsize = (\<lambda>_. Inl (Exception ''No such file or directory'')),
       clamd_exchange = (\<lambda>_. Inl (Exception ''Connection refused'')),
       image_open = (\<lambda>_. Inl (Exception ''cannot identify image file'')),
       open_rb = (\<lambda>_. Inl (Exception ''No such file or directory'')),
       sha256_hexdigest = (\<lambda>_. []) \<rparr>"

section \<open>Properties\<close>

subsection \<open>\<open>try\<close> and \<open>except\<close>\<close>

lemma try_except_Inr: "try_except (Inr v, lg) handler = (Inr v, lg)"
  by (simp add: try_except_def)

lemma try_except_Inl:
  "try_except (Inl e, lg) handler = (fst (handler e), lg @ snd (handler e))"
  by (simp add: try_except_def split: prod.splits)

subsection \<open>Size validation\<close>

lemma validate_file_size_value:
  "fst (validate_file_size w path max_size) =
     (case getsize w path of Inl e \<Rightarrow> Inr (False, 0) | Inr sz \<Rightarrow> Inr (sz \<le> max_size, sz))"
  by (simp add: validate_file_size_def try_except_Inr try_except_Inl split: sum.splits)

text \<open>
  C8. Size validation returns the pair (size \<open>\<le>\<close> maximum, size); the default maximum
  \<open>MAX_FILE_SIZE\<close> is 10,485,760 bytes, so a file of exactly that size passes and one
  byte more fails; when \<open>os.path.getsize\<close> raises, the result is failure with size 0.
\<close>

theorem validate_file_size_contract:
  "(getsize w path = Inr sz \<longrightarrow>
      fst (validate_file_size w path max_size) = Inr (sz \<le> max_size, sz))
   \<and> (getsize w path = Inl e \<longrightarrow>
      fst (validate_file_size w path max_size) = Inr (False, 0))
   \<and> MAX_FILE_SIZE = 10485760
   \<and> (getsize w path = Inr MAX_FILE_SIZE \<longrightarrow>
      fst (validate_file_size w path MAX_FILE_SIZE) = Inr (True, MAX_FILE_SIZE))
   \<and> (getsize w path = Inr (MAX_FILE_SIZE + 1) \<longrightarrow>
      fst (validate_file_size w path MAX_FILE_SIZE) = Inr (False, MAX_FILE_SIZE + 1))"
  by (simp add: validate_file_size_value MAX_FILE_SIZE_def)

theorem validate_file_size_contract_witness:
  "fst (validate_file_size (sample_world\<lparr>getsize := (\<lambda>_. Inr 10485760)\<rparr>) ''/tmp/a.png''
          MAX_FILE_SIZE) = Inr (True, 10485760)
   \<and> fst (validate_file_size (sample_world\<lparr>getsize := (\<lambda>_. Inr 10485761)\<rparr>) ''/tmp/a.png''
          MAX_FILE_SIZE) = Inr (False, 10485761)
   \<and> fst (validate_file_size
          (sample_world\<lparr>getsize := (\<lambda>_. Inl (Exception ''No such file or directory''))\<rparr>)
          ''/tmp/a.png'' MAX_FILE_SIZE) = Inr (False, 0)"
proof (intro conjI)
  show "fst (validate_file_size (sample_world\<lparr>getsize := (\<lambda>_. Inr 10485760)\<rparr>) ''/tmp/a.png''
          MAX_FILE_SIZE) = Inr (True, 10485760)"
    using validate_file_size_contract
      [of "sample_world\<lparr>getsize := (\<lambda>_. Inr 10485760)\<rparr>" "''/tmp/a.png''" 10485760
          MAX_FILE_SIZE "Exception []"]
    by simp
  show "fst (validate_file_size (sample_world\<lparr>getsize := (\<lambda>_. Inr 10485761)\<rparr>) ''/tmp/a.png''
          MAX_FILE_SIZE) = Inr (False, 10485761)"
    using validate_file_size_contract
      [of "sample_world\<lparr>getsize := (\<lambda>_. Inr 10485761)\<rparr>" "''/tmp/a.png''" 10485761
          MAX_FILE_SIZE "Exception []"]
    by simp
  show "fst (validate_file_size
          (sample_world\<lparr>getsize := (\<lambda>_. Inl (Exception ''No such file or directory''))\<rparr>)
          ''/tmp/a.png'' MAX_FILE_SIZE) = Inr (False, 0)"
    using validate_file_size_contract
      [of "sample_world\<lparr>getsize := (\<lambda>_. Inl (Exception ''No such file or directory''))\<rparr>"
          "''/tmp/a.png''" 0 MAX_FILE_SIZE "Exception ''No such file or directory''"]
    by simp
qed

subsection \<open>Python's string functions\<close>

lemma split_not_Nil: "split sep s \<noteq> []"
  by (induction s) (auto split: list.splits)

lemma dropWhile_keeps_infix:
  assumes "n \<noteq> []" and "\<not> P (hd n)"
  shows "\<exists>ps'. dropWhile P (ps @ n @ ss) = ps' @ n @ ss"
proof (cases "\<forall>x\<in>set ps. P x")
  case True
  from assms have "dropWhile P (n @ ss) = n @ ss"
    by (cases n) auto
  with True have "dropWhile P (ps @ n @ ss) = [] @ n @ ss"
    by simp
  then show ?thesis by blast
next
  case False
  then have "dropWhile P (ps @ n @ ss) = dropWhile P ps @ n @ ss"
    by auto
  then show ?thesis by blast
qed

text \<open>A needle that neither starts nor ends with whitespace survives \<open>strip\<close>.\<close>

lemma sublist_strip:
  assumes "sublist n s" and "n \<noteq> []" and "\<not> isspace (hd n)" and "\<not> isspace (last n)"
  shows "sublist n (strip s)"
proof -
  from assms(1) obtain ps ss where s: "s = ps @ n @ ss"
    by (auto simp: sublist_def)
  from dropWhile_keeps_infix [of n isspace ps ss] assms(2,3) obtain ps' where
    front: "dropWhile isspace (ps @ n @ ss) = ps' @ n @ ss"
    by blast
  have "rev n \<noteq> []" and "\<not> isspace (hd (rev n))"
    using assms(2,4) by (simp_all add: hd_rev)
  with dropWhile_keeps_infix [of \<open>rev n\<close> isspace \<open>rev ss\<close> \<open>rev ps'\<close>] obtain ss' where
    rear: "dropWhile isspace (rev ss @ rev n @ rev ps') = ss' @ rev n @ rev ps'"
    by blast
  have "strip s = ps' @ n @ rev ss'"
    by (simp add: strip_def s front rear)
  then show ?thesis
    by simp
qed

lemma sublist_strip_self: "sublist (strip s) s"
proof -
  have "suffix (dropWhile isspace s) s"
    by (rule suffix_dropWhile)
  moreover have "prefix (strip s) (dropWhile isspace s)"
    unfolding strip_def
    by (metis rev_rev_ident suffix_dropWhile suffix_to_prefix)
  ultimately show ?thesis
    by (meson prefix_imp_sublist suffix_imp_sublist sublist_order.order_trans)
qed

lemma sublist_strip_iff_OK: "sublist ''OK'' (strip s) \<longleftrightarrow> sublist ''OK'' s"
proof
  assume "sublist ''OK'' (strip s)"
  then show "sublist ''OK'' s"
    using sublist_strip_self sublist_order.order_trans by blast
next
  assume "sublist ''OK'' s"
  then show "sublist ''OK'' (strip s)"
    by (rule sublist_strip) (simp_all add: isspace_def)
qed

lemma sublist_strip_iff_FOUND: "sublist ''FOUND'' (strip s) \<longleftrightarrow> sublist ''FOUND'' s"
proof
  assume "sublist ''FOUND'' (strip s)"
  then show "sublist ''FOUND'' s"
    using sublist_strip_self sublist_order.order_trans by blast
next
  assume "sublist ''FOUND'' s"
  then show "sublist ''FOUND'' (strip s)"
    by (rule sublist_strip) (simp_all add: isspace_def)
qed

subsection \<open>Malware scan\<close>

lemma scan_for_malware_value:
  "fst (scan_for_malware w path) =
     (case clamd_exchange w (''SCAN '' @ path @ [CHR 0x0A]) of
        Inl e \<Rightarrow> Inr (False, ''Scan error: '' @ str_of e)
      | Inr received \<Rightarrow>
          (case parse_response (strip received) of
             Inl e \<Rightarrow> Inr (False, ''Scan error: '' @ str_of e)
           | Inr verdict \<Rightarrow> Inr verdict))"
  by (simp add: scan_for_malware_def scan_for_malware_try_def try_except_Inr try_except_Inl
      split: sum.splits)

lemma parse_response_OK: "sublist ''OK'' response \<Longrightarrow> parse_response response = Inr (True, ''Clean'')"
  by (simp add: parse_response_def)

lemma parse_response_neither:
  "\<not> sublist ''OK'' response \<Longrightarrow> \<not> sublist ''FOUND'' response \<Longrightarrow>
   parse_response response = Inr (False, ''Scan failed'')"
  by (simp add: parse_response_def)

lemma parse_response_FOUND:
  "\<not> sublist ''OK'' response \<Longrightarrow> sublist ''FOUND'' response \<Longrightarrow>
   parse_response response =
     (case split CHR '':'' response of
        _ # virus_name # _ \<Rightarrow> Inr (False, strip virus_name)
      | _ \<Rightarrow> Inl (Exception ''list index out of range''))"
  by (simp add: parse_response_def)

text \<open>
  C10. A response that contains both \<open>OK\<close> and \<open>FOUND\<close> is classified as Clean: the
  test for \<open>OK\<close> comes first. This holds for the parser on any text, and for
  \<open>scan_for_malware\<close> on whatever text the daemon sent.
\<close>

theorem ok_takes_precedence_over_found:
  "sublist ''OK'' response \<and> sublist ''FOUND'' response \<longrightarrow>
     parse_response response = Inr (True, ''Clean'')
     \<and> (clamd_exchange w (''SCAN '' @ path @ [CHR 0x0A]) = Inr response \<longrightarrow>
          fst (scan_for_malware w path) = Inr (True, ''Clean''))"
  by (simp add: parse_response_OK scan_for_malware_value sublist_strip_iff_OK)

theorem ok_takes_precedence_over_found_witness:
  "sublist ''OK'' ''/tmp/a.png: Win.Test.OK-1 FOUND''
   \<and> sublist ''FOUND'' ''/tmp/a.png: Win.Test.OK-1 FOUND''
   \<and> parse_response ''/tmp/a.png: Win.Test.OK-1 FOUND'' = Inr (True, ''Clean'')
   \<and> fst (scan_for_malware
         (sample_world\<lparr>clamd_exchange := (\<lambda>_. Inr ''/tmp/a.png: Win.Test.OK-1 FOUND'')\<rparr>)
         ''/tmp/a.png'') = Inr (True, ''Clean'')"
proof -
  have ok: "sublist ''OK'' ''/tmp/a.png: Win.Test.OK-1 FOUND''"
    by (simp add: sublist_Cons_right)
  have found: "sublist ''FOUND'' ''/tmp/a.png: Win.Test.OK-1 FOUND''"
    by (simp add: sublist_Cons_right)
  show ?thesis
    using ok found
      ok_takes_precedence_over_found
        [of "''/tmp/a.png: Win.Test.OK-1 FOUND''"
            "sample_world\<lparr>clamd_exchange := (\<lambda>_. Inr ''/tmp/a.png: Win.Test.OK-1 FOUND'')\<rparr>"
            "''/tmp/a.png''"]
    by simp
qed

text \<open>
  What \<open>scan_for_malware\<close> returns on every outcome of the exchange with the daemon. A
  response with \<open>FOUND\<close> and no \<open>OK\<close> gives the second colon-delimited field of the
  stripped response, stripped, as the detail; without a colon, \<open>split(":")[1]\<close> raises
  and the handler of the stage gives the error.
\<close>

lemma scan_for_malware_cases:
  "(clamd_exchange w (''SCAN '' @ path @ [CHR 0x0A]) = Inr response \<and> sublist ''OK'' response
      \<longrightarrow> fst (scan_for_malware w path) = Inr (True, ''Clean''))
   \<and> (clamd_exchange w (''SCAN '' @ path @ [CHR 0x0A]) = Inr response
       \<and> \<not> sublist ''OK'' response \<and> sublist ''FOUND'' response
      \<longrightarrow> fst (scan_for_malware w path)
            = (case split CHR '':'' (strip response) of
                 _ # virus_name # _ \<Rightarrow> Inr (False, strip virus_name)
               | _ \<Rightarrow> Inr (False, ''Scan error: list index out of range'')))
   \<and> (clamd_exchange w (''SCAN '' @ path @ [CHR 0x0A]) = Inr response
       \<and> \<not> sublist ''OK'' response \<and> \<not> sublist ''FOUND'' response
      \<longrightarrow> fst (scan_for_malware w path) = Inr (False, ''Scan failed''))
   \<and> (clamd_exchange w (''SCAN '' @ path @ [CHR 0x0A]) = Inl e
      \<longrightarrow> fst (scan_for_malware w path) = Inr (False, ''Scan error: '' @ str_of e))"
proof -
  have found: "fst (scan_for_malware w path)
            = (case split CHR '':'' (strip response) of
                 _ # virus_name # _ \<Rightarrow> Inr (False, strip virus_name)
               | _ \<Rightarrow> Inr (False, ''Scan error: list index out of range''))"
    if a: "clamd_exchange w (''SCAN '' @ path @ [CHR 0x0A]) = Inr response
       \<and> \<not> sublist ''OK'' response \<and> sublist ''FOUND'' response"
  proof -
    from a have "\<not> sublist ''OK'' (strip response)" and "sublist ''FOUND'' (strip response)"
      by (simp_all add: sublist_strip_iff_OK sublist_strip_iff_FOUND)
    from parse_response_FOUND [OF this] a show ?thesis
      by (simp add: scan_for_malware_value split: list.splits)
  qed
  show ?thesis
    using found
    by (simp add: scan_for_malware_value parse_response_OK parse_response_neither
        sublist_strip_iff_OK sublist_strip_iff_FOUND)
qed

text \<open>
  C3. The claim's own example shows the defect: for the response
  \<open>stream: Eicar-Test-Signature FOUND\<close> the detail that \<open>scan_for_malware\<close> returns as
  \<open>virus_name\<close> is \<open>Eicar-Test-Signature FOUND\<close>, the second colon-delimited field with
  the token \<open>FOUND\<close> still attached, and not the signature name \<open>Eicar-Test-Signature\<close>.
\<close>

theorem virus_name_keeps_found_token:
  "fst (scan_for_malware
      (sample_world\<lparr>clamd_exchange := (\<lambda>_. Inr ''stream: Eicar-Test-Signature FOUND'')\<rparr>)
      ''/tmp/a.png'') = Inr (False, ''Eicar-Test-Signature FOUND'')
   \<and> ''Eicar-Test-Signature FOUND'' \<noteq> ''Eicar-Test-Signature''"
  by (simp add: scan_for_malware_value parse_response_def sublist_Cons_right strip_def
      isspace_def)

subsection \<open>Image heuristics\<close>

lemma analyze_image_content_value:
  "fst (analyze_image_content w path) =
     (case image_open w path of
        Inl e \<Rightarrow> Inr (False, ''Analysis error: '' @ str_of e)
      | Inr img \<Rightarrow>
          if fst (img_size img) < 10 \<or> snd (img_size img) < 10
          then Inr (False, ''Image too small'')
          else if fst (img_size img) > 10000 \<or> snd (img_size img) > 10000
          then Inr (False, ''Image too large'')
          else Inr (True, ''Image appears safe''))"
  by (simp add: analyze_image_content_def analyze_image_content_try_def try_except_Inr
      try_except_Inl split: sum.splits prod.splits)

text \<open>
  C5, as stated, fails where both tests hold: an image of 5 by 20000 pixels has a height
  above 10000, yet the reason returned is the one of the first test, \<open>Image too small\<close>.
\<close>

theorem too_large_reason_counterexample:
  "(20000 :: int) > 10000
   \<and> fst (analyze_image_content
         (sample_world\<lparr>image_open := (\<lambda>_. Inr (sample_image\<lparr>img_size := (5, 20000)\<rparr>))\<rparr>)
         ''/tmp/a.png'') = Inr (False, ''Image too small'')
   \<and> ''Image too small'' \<noteq> ''Image too large''"
  by (simp add: analyze_image_content_value)

text \<open>
  C5, amended. For an image that decodes to width \<open>w\<close> and height \<open>h\<close>, the heuristic
  returns Unsafe, \<open>Image too small\<close>, when \<open>w < 10\<close> or \<open>h < 10\<close>; Unsafe,
  \<open>Image too large\<close>, when neither is below 10 and \<open>w > 10000\<close> or \<open>h > 10000\<close>; and
  Safe otherwise. When \<open>Image.open\<close> raises, it returns Unsafe with \<open>Analysis error:\<close>
  and the message, and raises nothing.
\<close>

theorem image_dimension_bounds:
  "(image_open w path = Inr img \<and> img_size img = (width, height) \<longrightarrow>
      (width < 10 \<or> height < 10 \<longrightarrow>
         fst (analyze_image_content w path) = Inr (False, ''Image too small''))
      \<and> (10 \<le> width \<and> 10 \<le> height \<and> (width > 10000 \<or> height > 10000) \<longrightarrow>
         fst (analyze_image_content w path) = Inr (False, ''Image too large''))
      \<and> (10 \<le> width \<and> width \<le> 10000 \<and> 10 \<le> height \<and> height \<le> 10000 \<longrightarrow>
         fst (analyze_image_content w path) = Inr (True, ''Image appears safe'')))
   \<and> (image_open w path = Inl e \<longrightarrow>
      fst (analyze_image_content w path) = Inr (False, ''Analysis error: '' @ str_of e))"
  by (auto simp add: analyze_image_content_value)

theorem image_dimension_bounds_witness:
  "fst (analyze_image_content
         (sample_world\<lparr>image_open := (\<lambda>_. Inr (sample_image\<lparr>img_size := (9, 9)\<rparr>))\<rparr>)
         ''/tmp/a.png'') = Inr (False, ''Image too small'')
   \<and> fst (analyze_image_content
         (sample_world\<lparr>image_open := (\<lambda>_. Inr (sample_image\<lparr>img_size := (10, 10)\<rparr>))\<rparr>)
         ''/tmp/a.png'') = Inr (True, ''Image appears safe'')
   \<and> fst (analyze_image_content
         (sample_world\<lparr>image_open := (\<lambda>_. Inr (sample_image\<lparr>img_size := (10001, 500)\<rparr>))\<rparr>)
         ''/tmp/a.png'') = Inr (False, ''Image too large'')
   \<and> fst (analyze_image_content
         (sample_world\<lparr>image_open := (\<lambda>_. Inl (Exception ''cannot identify image file''))\<rparr>)
         ''/tmp/a.png'') = Inr (False, ''Analysis error: cannot identify image file'')"
proof (intro conjI)
  show "fst (analyze_image_content
         (sample_world\<lparr>image_open := (\<lambda>_. Inr (sample_image\<lparr>img_size := (9, 9)\<rparr>))\<rparr>)
         ''/tmp/a.png'') = Inr (False, ''Image too small'')"
    using image_dimension_bounds
      [of "sample_world\<lparr>image_open := (\<lambda>_. Inr (sample_image\<lparr>img_size := (9, 9)\<rparr>))\<rparr>"
          "''/tmp/a.png''" "sample_image\<lparr>img_size := (9, 9)\<rparr>" 9 9 "Exception []"]
    by simp
  show "fst (analyze_image_content
         (sample_world\<lparr>image_open := (\<lambda>_. Inr (sample_image\<lparr>img_size := (10, 10)\<rparr>))\<rparr>)
         ''/tmp/a.png'') = Inr (True, ''Image appears safe'')"
    using image_dimension_bounds
      [of "sample_world\<lparr>image_open := (\<lambda>_. Inr (sample_image\<lparr>img_size := (10, 10)\<rparr>))\<rparr>"
          "''/tmp/a.png''" "sample_image\<lparr>img_size := (10, 10)\<rparr>" 10 10 "Exception []"]
    by simp
  show "fst (analyze_image_content
         (sample_world\<lparr>image_open := (\<lambda>_. Inr (sample_image\<lparr>img_size := (10001, 500)\<rparr>))\<rparr>)
         ''/tmp/a.png'') = Inr (False, ''Image too large'')"
    using image_dimension_bounds
      [of "sample_world\<lparr>image_open := (\<lambda>_. Inr (sample_image\<lparr>img_size := (10001, 500)\<rparr>))\<rparr>"
          "''/tmp/a.png''" "sample_image\<lparr>img_size := (10001, 500)\<rparr>" 10001 500
          "Exception []"]
    by simp
  show "fst (analyze_image_content
         (sample_world\<lparr>image_open := (\<lambda>_. Inl (Exception ''cannot identify image file''))\<rparr>)
         ''/tmp/a.png'') = Inr (False, ''Analysis error: cannot identify image file'')"
    using image_dimension_bounds
      [of "sample_world\<lparr>image_open := (\<lambda>_. Inl (Exception ''cannot identify image file''))\<rparr>"
          "''/tmp/a.png''" sample_image 0 0 "Exception ''cannot identify image file''"]
    by simp
qed

text \<open>
  C6. Two images of the same width and height get the same outcome from the heuristic,
  whatever their modes and their \<open>info\<close> dictionaries: the transparency test only decides
  whether a line is logged.
\<close>

theorem transparency_is_observational:
  "image_open w path = Inr a \<and> image_open w' path' = Inr b \<and> img_size a = img_size b \<longrightarrow>
     fst (analyze_image_content w path) = fst (analyze_image_content w' path')"
  by (simp add: analyze_image_content_value)

theorem transparency_is_observational_witness:
  "fst (analyze_image_content sample_world ''/tmp/a.png'')
     = fst (analyze_image_content
         (sample_world\<lparr>image_open := (\<lambda>_. Inr
            \<lparr>img_size = (100, 100), img_mode = ''RGBA'', img_info = [''transparency'']\<rparr>)\<rparr>)
         ''/tmp/b.png'')
   \<and> snd (analyze_image_content sample_world ''/tmp/a.png'') = []
   \<and> snd (analyze_image_content
         (sample_world\<lparr>image_open := (\<lambda>_. Inr
            \<lparr>img_size = (100, 100), img_mode = ''RGBA'', img_info = [''transparency'']\<rparr>)\<rparr>)
         ''/tmp/b.png'') = [(INFO, ''Image contains transparency'')]"
proof (intro conjI)
  show "fst (analyze_image_content sample_world ''/tmp/a.png'')
     = fst (analyze_image_content
         (sample_world\<lparr>image_open := (\<lambda>_. Inr
            \<lparr>img_size = (100, 100), img_mode = ''RGBA'', img_info = [''transparency'']\<rparr>)\<rparr>)
         ''/tmp/b.png'')"
    using transparency_is_observational
      [of sample_world "''/tmp/a.png''" sample_image
          "sample_world\<lparr>image_open := (\<lambda>_. Inr
            \<lparr>img_size = (100, 100), img_mode = ''RGBA'', img_info = [''transparency'']\<rparr>)\<rparr>"
          "''/tmp/b.png''"
          "\<lparr>img_size = (100, 100), img_mode = ''RGBA'', img_info = [''transparency'']\<rparr>"]
    by (simp add: sample_world_def sample_image_def)
  show "snd (analyze_image_content sample_world ''/tmp/a.png'') = []"
    by (simp add: analyze_image_content_def analyze_image_content_try_def try_except_Inr
        sample_world_def sample_image_def)
  show "snd (analyze_image_content
         (sample_world\<lparr>image_open := (\<lambda>_. Inr
            \<lparr>img_size = (100, 100), img_mode = ''RGBA'', img_info = [''transparency'']\<rparr>)\<rparr>)
         ''/tmp/b.png'') = [(INFO, ''Image contains transparency'')]"
    by (simp add: analyze_image_content_def analyze_image_content_try_def try_except_Inr)
qed

subsection \<open>Type validation\<close>

lemma validate_file_type_value:
  "fst (validate_file_type w path) =
     (case mime_from_file w path of
        Inl e \<Rightarrow> Inr (False, None, None)
      | Inr mime \<Rightarrow>
          (case first_category ALLOWED_EXTENSIONS (file_ext path) mime of
             Some category \<Rightarrow> Inr (True, Some category, Some mime)
           | None \<Rightarrow> Inr (False, None, Some mime)))"
  by (simp add: validate_file_type_def validate_file_type_try_def try_except_Inr try_except_Inl
      split: sum.splits option.splits)

lemma first_category_None:
  "(\<forall>(category, extensions) \<in> set table.
      ext \<in> set extensions \<longrightarrow> \<not> mime_matches_extension mime category)
   \<Longrightarrow> first_category table ext mime = None"
  by (induction table ext mime rule: first_category.induct) auto

lemma first_category_Some:
  "first_category table ext mime = Some category \<Longrightarrow>
   \<exists>extensions. (category, extensions) \<in> set table \<and> ext \<in> set extensions
      \<and> mime_matches_extension mime category"
  by (induction table ext mime rule: first_category.induct) (auto split: if_splits)

lemma executable_matches_nothing:
  "(category, extensions) \<in> set ALLOWED_EXTENSIONS \<Longrightarrow>
   \<not> mime_matches_extension ''application/x-executable'' category"
  by (auto simp add: ALLOWED_EXTENSIONS_def mime_matches_extension_def mime_categories_def)

subsection \<open>Every stage returns\<close>

lemma try_except_returns:
  assumes "\<And>e. \<exists>v lg. handler e = (Inr v, lg)"
  shows "\<exists>v lg. try_except body handler = (Inr v, lg)"
proof (cases body)
  case (Pair r lg)
  show ?thesis
  proof (cases r)
    case (Inl e)
    from assms [of e] obtain v lg' where "handler e = (Inr v, lg')"
      by blast
    with Pair Inl show ?thesis
      by (simp add: try_except_def)
  next
    case (Inr v)
    with Pair show ?thesis
      by (simp add: try_except_def)
  qed
qed

lemma generate_file_hash_returns: "\<exists>h lg. generate_file_hash w path = (Inr h, lg)"
  unfolding generate_file_hash_def by (rule try_except_returns) blast

lemma validate_file_type_returns:
  "\<exists>type_valid category mime lg.
     validate_file_type w path = (Inr (type_valid, category, mime), lg)"
proof -
  have "\<exists>v lg. validate_file_type w path = (Inr v, lg)"
    unfolding validate_file_type_def by (rule try_except_returns) blast
  then show ?thesis
    by (metis prod_cases3)
qed

lemma validate_file_size_returns:
  "\<exists>size_ok sz lg. validate_file_size w path max_size = (Inr (size_ok, sz), lg)"
proof -
  have "\<exists>v lg. validate_file_size w path max_size = (Inr v, lg)"
    unfolding validate_file_size_def by (rule try_except_returns) blast
  then show ?thesis
    by (metis surj_pair)
qed

lemma scan_for_malware_returns:
  "\<exists>malware_clean malware_details lg.
     scan_for_malware w path = (Inr (malware_clean, malware_details), lg)"
proof -
  have "\<exists>v lg. scan_for_malware w path = (Inr v, lg)"
    unfolding scan_for_malware_def by (rule try_except_returns) blast
  then show ?thesis
    by (metis surj_pair)
qed

lemma analyze_image_content_returns:
  "\<exists>content_safe content_details lg.
     analyze_image_content w path = (Inr (content_safe, content_details), lg)"
proof -
  have "\<exists>v lg. analyze_image_content w path = (Inr v, lg)"
    unfolding analyze_image_content_def by (rule try_except_returns) blast
  then show ?thesis
    by (metis surj_pair)
qed

lemma scan_try_no_exception: "fst (fst (scan_try w path results0)) = None"
proof -
  obtain h l1 where H: "generate_file_hash w path = (Inr h, l1)"
    using generate_file_hash_returns by blast
  obtain type_valid category mime l2 where
    T: "validate_file_type w path = (Inr (type_valid, category, mime), l2)"
    using validate_file_type_returns by blast
  obtain size_ok sz l3 where
    S: "validate_file_size w path MAX_FILE_SIZE = (Inr (size_ok, sz), l3)"
    using validate_file_size_returns by blast
  obtain malware_clean malware_details l4 where
    M: "scan_for_malware w path = (Inr (malware_clean, malware_details), l4)"
    using scan_for_malware_returns by blast
  obtain content_safe content_details l5 where
    I: "analyze_image_content w path = (Inr (content_safe, content_details), l5)"
    using analyze_image_content_returns by blast
  show ?thesis
    by (simp add: scan_try_def H T S M I Let_def)
qed

lemma comprehensive_scan_returns:
  "comprehensive_scan w path =
     (Inr (snd (fst (scan_try w path (initial_results w path)))),
      snd (scan_try w path (initial_results w path)))"
  using scan_try_no_exception [of w path "initial_results w path"]
  by (auto simp add: comprehensive_scan_def split: prod.splits option.splits)

subsection \<open>The stages in the sample world\<close>

lemma file_ext_examples:
  "file_ext ''/tmp/a.png'' = ''png''"
  "file_ext ''/tmp/photo.JPG'' = ''jpg''"
  "file_ext ''/tmp/report.pdf'' = ''pdf''"
  "file_ext ''/tmp/archive.tar.gz'' = ''gz''"
  "file_ext ''/tmp/.jpg'' = []"
  by (simp_all add: file_ext_def splitext_def rfind_def lstrip_def lower_def lower_char_def
      Let_def char_of_def bit_iff_odd_drop_bit)

lemma sample_stages:
  "fst (generate_file_hash sample_world ''/tmp/a.png'')
     = Inr (Some ''ba7816bf8f01cfea414140de5dae2223b00361a396177a9cb410ff61f20015ad'')"
  "fst (validate_file_type sample_world ''/tmp/a.png'')
     = Inr (True, Some ''image'', Some ''image/png'')"
  "fst (validate_file_size sample_world ''/tmp/a.png'' MAX_FILE_SIZE) = Inr (True, 1024)"
  "fst (scan_for_malware sample_world ''/tmp/a.png'') = Inr (True, ''Clean'')"
  "fst (analyze_image_content sample_world ''/tmp/a.png'') = Inr (True, ''Image appears safe'')"
proof -
  show "fst (generate_file_hash sample_world ''/tmp/a.png'')
     = Inr (Some ''ba7816bf8f01cfea414140de5dae2223b00361a396177a9cb410ff61f20015ad'')"
    by (simp add: generate_file_hash_def generate_file_hash_try_def try_except_Inr
        sample_world_def)
  show "fst (validate_file_type sample_world ''/tmp/a.png'')
     = Inr (True, Some ''image'', Some ''image/png'')"
    by (simp add: validate_file_type_value sample_world_def file_ext_examples
        ALLOWED_EXTENSIONS_def mime_matches_extension_def mime_categories_def)
  show "fst (validate_file_size sample_world ''/tmp/a.png'' MAX_FILE_SIZE) = Inr (True, 1024)"
    by (simp add: validate_file_size_value sample_world_def MAX_FILE_SIZE_def)
  show "fst (scan_for_malware sample_world ''/tmp/a.png'') = Inr (True, ''Clean'')"
    by (simp add: scan_for_malware_value sample_world_def parse_response_def strip_def
        isspace_def sublist_Cons_right)
  show "fst (analyze_image_content sample_world ''/tmp/a.png'')
     = Inr (True, ''Image appears safe'')"
    by (simp add: analyze_image_content_value sample_world_def sample_image_def)
qed

subsection \<open>The pipeline\<close>

text \<open>
  C4. No exception leaves the pipeline: each stage turns the exceptions of its calls into
  a value, the \<open>try\<close> block of \<open>comprehensive_scan\<close> is never left by an exception (so
  its handler never runs), and \<open>comprehensive_scan\<close> returns a report for every world and
  path.
\<close>

theorem no_exception_leaves_the_pipeline:
  "(\<exists>h. fst (generate_file_hash w path) = Inr h)
   \<and> (\<exists>v. fst (validate_file_type w path) = Inr v)
   \<and> (\<exists>v. fst (validate_file_size w path max_size) = Inr v)
   \<and> (\<exists>v. fst (scan_for_malware w path) = Inr v)
   \<and> (\<exists>v. fst (analyze_image_content w path) = Inr v)
   \<and> fst (fst (scan_try w path (initial_results w path))) = None
   \<and> (\<exists>r. fst (comprehensive_scan w path) = Inr r)"
proof (intro conjI)
  show "\<exists>h. fst (generate_file_hash w path) = Inr h"
    using generate_file_hash_returns [of w path] by auto
  show "\<exists>v. fst (validate_file_type w path) = Inr v"
    using validate_file_type_returns [of w path] by auto
  show "\<exists>v. fst (validate_file_size w path max_size) = Inr v"
    using validate_file_size_returns [of w path max_size] by auto
  show "\<exists>v. fst (scan_for_malware w path) = Inr v"
    using scan_for_malware_returns [of w path] by auto
  show "\<exists>v. fst (analyze_image_content w path) = Inr v"
    using analyze_image_content_returns [of w path] by auto
  show "fst (fst (scan_try w path (initial_results w path))) = None"
    by (rule scan_try_no_exception)
  show "\<exists>r. fst (comprehensive_scan w path) = Inr r"
    by (simp add: comprehensive_scan_returns)
qed

theorem no_exception_leaves_the_pipeline_witness:
  "(\<exists>r. fst (comprehensive_scan faulty_world ''/tmp/a.png'') = Inr r)
   \<and> fst (generate_file_hash faulty_world ''/tmp/a.png'') = Inr None
   \<and> fst (validate_file_type faulty_world ''/tmp/a.png'') = Inr (False, None, None)
   \<and> fst (validate_file_size faulty_world ''/tmp/a.png'' MAX_FILE_SIZE) = Inr (False, 0)
   \<and> fst (scan_for_malware faulty_world ''/tmp/a.png'')
        = Inr (False, ''Scan error: Connection refused'')
   \<and> fst (analyze_image_content faulty_world ''/tmp/a.png'')
        = Inr (False, ''Analysis error: cannot identify image file'')
   \<and> fst (comprehensive_scan faulty_world ''/tmp/a.png'')
        = Inr ((initial_results faulty_world ''/tmp/a.png'')\<lparr>errors := [''Invalid file type'']\<rparr>)"
proof (intro conjI)
  show "\<exists>r. fst (comprehensive_scan faulty_world ''/tmp/a.png'') = Inr r"
    using no_exception_leaves_the_pipeline [of faulty_world "''/tmp/a.png''" MAX_FILE_SIZE]
    by simp
  show "fst (generate_file_hash faulty_world ''/tmp/a.png'') = Inr None"
    by (simp add: generate_file_hash_def generate_file_hash_try_def try_except_Inl
        faulty_world_def)
  show "fst (validate_file_type faulty_world ''/tmp/a.png'') = Inr (False, None, None)"
    by (simp add: validate_file_type_value faulty_world_def)
  show "fst (validate_file_size faulty_world ''/tmp/a.png'' MAX_FILE_SIZE) = Inr (False, 0)"
    by (simp add: validate_file_size_value faulty_world_def)
  show "fst (scan_for_malware faulty_world ''/tmp/a.png'')
        = Inr (False, ''Scan error: Connection refused'')"
    by (simp add: scan_for_malware_value faulty_world_def)
  show "fst (analyze_image_content faulty_world ''/tmp/a.png'')
        = Inr (False, ''Analysis error: cannot identify image file'')"
    by (simp add: analyze_image_content_value faulty_world_def)
  show "fst (comprehensive_scan faulty_world ''/tmp/a.png'')
        = Inr ((initial_results faulty_world ''/tmp/a.png'')\<lparr>errors := [''Invalid file type'']\<rparr>)"
    by (simp add: comprehensive_scan_def scan_try_def generate_file_hash_def
        generate_file_hash_try_def validate_file_type_def validate_file_type_try_def
        try_except_Inl faulty_world_def initial_results_def)
qed

text \<open>
  C1. The report of every run carries the validity flag and the category that type
  validation returned, and in it \<open>overall_safe\<close> is true exactly when the type-valid
  flag, the size-valid flag, the clean flag of the malware scan and the safe flag of the
  content analysis are all true; and exactly when type validation, size validation and
  the malware scan all passed and, for the category \<open>image\<close>, the image heuristic did
  too. For any other category that got past the malware scan, the content analysis is
  recorded as safe, \<open>Content analysis not applicable\<close>.
\<close>

theorem overall_safe_iff:
  "\<exists>r. fst (comprehensive_scan w path) = Inr r
     \<and> (\<exists>mime. fst (validate_file_type w path)
                  = Inr (file_type_valid r, file_category r, mime))
     \<and> (overall_safe r \<longleftrightarrow>
          file_type_valid r \<and> size_valid r \<and> passed (malware_scan r)
          \<and> passed (content_analysis r))
     \<and> (overall_safe r \<longleftrightarrow>
          (\<exists>category mime sz malware_details.
             fst (validate_file_type w path) = Inr (True, category, mime)
             \<and> fst (validate_file_size w path MAX_FILE_SIZE) = Inr (True, sz)
             \<and> fst (scan_for_malware w path) = Inr (True, malware_details)
             \<and> (category = Some ''image'' \<longrightarrow>
                  (\<exists>content_details.
                     fst (analyze_image_content w path) = Inr (True, content_details)))))
     \<and> (file_type_valid r \<and> size_valid r \<and> passed (malware_scan r)
          \<and> file_category r \<noteq> Some ''image'' \<longrightarrow>
          content_analysis r = \<lparr>passed = True, details = ''Content analysis not applicable''\<rparr>)"
proof -
  obtain h l1 where H: "generate_file_hash w path = (Inr h, l1)"
    using generate_file_hash_returns by blast
  obtain type_valid category mime l2 where
    T: "validate_file_type w path = (Inr (type_valid, category, mime), l2)"
    using validate_file_type_returns by blast
  obtain size_ok sz l3 where
    S: "validate_file_size w path MAX_FILE_SIZE = (Inr (size_ok, sz), l3)"
    using validate_file_size_returns by blast
  obtain malware_clean malware_details l4 where
    M: "scan_for_malware w path = (Inr (malware_clean, malware_details), l4)"
    using scan_for_malware_returns by blast
  obtain content_safe content_details l5 where
    I: "analyze_image_content w path = (Inr (content_safe, content_details), l5)"
    using analyze_image_content_returns by blast
  show ?thesis
    by (simp add: comprehensive_scan_returns scan_try_def H T S M I Let_def
        initial_results_def)
qed

theorem overall_safe_iff_witness:
  "(\<exists>r. fst (comprehensive_scan sample_world ''/tmp/a.png'') = Inr r
      \<and> overall_safe r \<and> file_type_valid r \<and> size_valid r \<and> passed (malware_scan r)
      \<and> passed (content_analysis r) \<and> file_category r = Some ''image'')
   \<and> (\<exists>r. fst (comprehensive_scan
                (sample_world\<lparr>mime_from_file := (\<lambda>_. Inr ''application/pdf'')\<rparr>)
                ''/tmp/report.pdf'') = Inr r
      \<and> overall_safe r \<and> file_category r = Some ''document''
      \<and> content_analysis r = \<lparr>passed = True, details = ''Content analysis not applicable''\<rparr>)"
proof (intro conjI)
  show "\<exists>r. fst (comprehensive_scan sample_world ''/tmp/a.png'') = Inr r
      \<and> overall_safe r \<and> file_type_valid r \<and> size_valid r \<and> passed (malware_scan r)
      \<and> passed (content_analysis r) \<and> file_category r = Some ''image''"
    using overall_safe_iff [of sample_world "''/tmp/a.png''"]
    by (auto simp add: sample_stages)
  have "fst (validate_file_type (sample_world\<lparr>mime_from_file := (\<lambda>_. Inr ''application/pdf'')\<rparr>)
          ''/tmp/report.pdf'') = Inr (True, Some ''document'', Some ''application/pdf'')"
    by (simp add: validate_file_type_value file_ext_examples ALLOWED_EXTENSIONS_def
        mime_matches_extension_def mime_categories_def)
  moreover have "fst (validate_file_size
          (sample_world\<lparr>mime_from_file := (\<lambda>_. Inr ''application/pdf'')\<rparr>)
          ''/tmp/report.pdf'' MAX_FILE_SIZE) = Inr (True, 1024)"
    by (simp add: validate_file_size_value sample_world_def MAX_FILE_SIZE_def)
  moreover have "fst (scan_for_malware
          (sample_world\<lparr>mime_from_file := (\<lambda>_. Inr ''application/pdf'')\<rparr>)
          ''/tmp/report.pdf'') = Inr (True, ''Clean'')"
    by (simp add: scan_for_malware_value sample_world_def parse_response_def strip_def
        isspace_def sublist_Cons_right)
  ultimately show "\<exists>r. fst (comprehensive_scan
                (sample_world\<lparr>mime_from_file := (\<lambda>_. Inr ''application/pdf'')\<rparr>)
                ''/tmp/report.pdf'') = Inr r
      \<and> overall_safe r \<and> file_category r = Some ''document''
      \<and> content_analysis r = \<lparr>passed = True, details = ''Content analysis not applicable''\<rparr>"
    using overall_safe_iff
      [of "sample_world\<lparr>mime_from_file := (\<lambda>_. Inr ''application/pdf'')\<rparr>"
          "''/tmp/report.pdf''"]
    by auto
qed

text \<open>
  C2. When a stage fails, the run ends there: the report has exactly one error, the one
  of that stage, the fields of every later stage still hold what \<open>initial_results\<close> put
  there, and the log holds the lines of the stages up to the failing one and no others.
\<close>

theorem first_failure_ends_the_run:
  "\<exists>r. fst (comprehensive_scan w path) = Inr r
     \<and> (\<forall>category mime.
          fst (validate_file_type w path) = Inr (False, category, mime) \<longrightarrow>
            errors r = [''Invalid file type'']
            \<and> \<not> file_type_valid r
            \<and> \<not> size_valid r \<and> file_size r = 0
            \<and> malware_scan r = \<lparr>passed = False, details = ''Not scanned''\<rparr>
            \<and> content_analysis r = \<lparr>passed = False, details = ''Not analyzed''\<rparr>
            \<and> \<not> overall_safe r
            \<and> snd (comprehensive_scan w path)
                = snd (generate_file_hash w path) @ snd (validate_file_type w path))
     \<and> (\<forall>category mime sz.
          fst (validate_file_type w path) = Inr (True, category, mime)
          \<and> fst (validate_file_size w path MAX_FILE_SIZE) = Inr (False, sz) \<longrightarrow>
            errors r = [''File too large'']
            \<and> \<not> size_valid r \<and> file_size r = sz
            \<and> malware_scan r = \<lparr>passed = False, details = ''Not scanned''\<rparr>
            \<and> content_analysis r = \<lparr>passed = False, details = ''Not analyzed''\<rparr>
            \<and> \<not> overall_safe r
            \<and> snd (comprehensive_scan w path)
                = snd (generate_file_hash w path) @ snd (validate_file_type w path)
                  @ snd (validate_file_size w path MAX_FILE_SIZE))
     \<and> (\<forall>category mime sz malware_details.
          fst (validate_file_type w path) = Inr (True, category, mime)
          \<and> fst (validate_file_size w path MAX_FILE_SIZE) = Inr (True, sz)
          \<and> fst (scan_for_malware w path) = Inr (False, malware_details) \<longrightarrow>
            errors r = [''Malware detected: '' @ malware_details]
            \<and> malware_scan r = \<lparr>passed = False, details = malware_details\<rparr>
            \<and> content_analysis r = \<lparr>passed = False, details = ''Not analyzed''\<rparr>
            \<and> \<not> overall_safe r
            \<and> snd (comprehensive_scan w path)
                = snd (generate_file_hash w path) @ snd (validate_file_type w path)
                  @ snd (validate_file_size w path MAX_FILE_SIZE)
                  @ snd (scan_for_malware w path))
     \<and> (\<forall>mime sz malware_details content_details.
          fst (validate_file_type w path) = Inr (True, Some ''image'', mime)
          \<and> fst (validate_file_size w path MAX_FILE_SIZE) = Inr (True, sz)
          \<and> fst (scan_for_malware w path) = Inr (True, malware_details)
          \<and> fst (analyze_image_content w path) = Inr (False, content_details) \<longrightarrow>
            errors r = [''Content issue: '' @ content_details]
            \<and> content_analysis r = \<lparr>passed = False, details = content_details\<rparr>
            \<and> \<not> overall_safe r
            \<and> snd (comprehensive_scan w path)
                = snd (generate_file_hash w path) @ snd (validate_file_type w path)
                  @ snd (validate_file_size w path MAX_FILE_SIZE)
                  @ snd (scan_for_malware w path) @ snd (analyze_image_content w path))"
proof -
  obtain h l1 where H: "generate_file_hash w path = (Inr h, l1)"
    using generate_file_hash_returns by blast
  obtain type_valid category mime l2 where
    T: "validate_file_type w path = (Inr (type_valid, category, mime), l2)"
    using validate_file_type_returns by blast
  obtain size_ok sz l3 where
    S: "validate_file_size w path MAX_FILE_SIZE = (Inr (size_ok, sz), l3)"
    using validate_file_size_returns by blast
  obtain malware_clean malware_details l4 where
    M: "scan_for_malware w path = (Inr (malware_clean, malware_details), l4)"
    using scan_for_malware_returns by blast
  obtain content_safe content_details l5 where
    I: "analyze_image_content w path = (Inr (content_safe, content_details), l5)"
    using analyze_image_content_returns by blast
  show ?thesis
    by (simp add: comprehensive_scan_returns scan_try_def H T S M I Let_def
        initial_results_def)
qed

theorem first_failure_ends_the_run_witness:
  "(\<exists>r. fst (comprehensive_scan
          (sample_world\<lparr>mime_from_file := (\<lambda>_. Inr ''application/x-executable'')\<rparr>)
          ''/tmp/photo.JPG'') = Inr r
       \<and> errors r = [''Invalid file type''] \<and> \<not> size_valid r \<and> file_size r = 0
       \<and> malware_scan r = \<lparr>passed = False, details = ''Not scanned''\<rparr>
       \<and> content_analysis r = \<lparr>passed = False, details = ''Not analyzed''\<rparr>)
   \<and> (\<exists>r. fst (comprehensive_scan (sample_world\<lparr>getsize := (\<lambda>_. Inr 10485761)\<rparr>)
          ''/tmp/a.png'') = Inr r
       \<and> errors r = [''File too large''] \<and> file_size r = 10485761
       \<and> malware_scan r = \<lparr>passed = False, details = ''Not scanned''\<rparr>
       \<and> content_analysis r = \<lparr>passed = False, details = ''Not analyzed''\<rparr>)
   \<and> (\<exists>r. fst (comprehensive_scan
          (sample_world\<lparr>clamd_exchange := (\<lambda>_. Inr ''UNKNOWN COMMAND'')\<rparr>)
          ''/tmp/a.png'') = Inr r
       \<and> errors r = [''Malware detected: Scan failed'']
       \<and> content_analysis r = \<lparr>passed = False, details = ''Not analyzed''\<rparr>)
   \<and> (\<exists>r. fst (comprehensive_scan
          (sample_world\<lparr>image_open := (\<lambda>_. Inr (sample_image\<lparr>img_size := (9, 9)\<rparr>))\<rparr>)
          ''/tmp/a.png'') = Inr r
       \<and> errors r = [''Content issue: Image too small''] \<and> \<not> overall_safe r)"
proof (intro conjI)
  have "fst (validate_file_type
          (sample_world\<lparr>mime_from_file := (\<lambda>_. Inr ''application/x-executable'')\<rparr>)
          ''/tmp/photo.JPG'') = Inr (False, None, Some ''application/x-executable'')"
    by (simp add: validate_file_type_value file_ext_examples ALLOWED_EXTENSIONS_def
        mime_matches_extension_def mime_categories_def)
  then show "\<exists>r. fst (comprehensive_scan
          (sample_world\<lparr>mime_from_file := (\<lambda>_. Inr ''application/x-executable'')\<rparr>)
          ''/tmp/photo.JPG'') = Inr r
       \<and> errors r = [''Invalid file type''] \<and> \<not> size_valid r \<and> file_size r = 0
       \<and> malware_scan r = \<lparr>passed = False, details = ''Not scanned''\<rparr>
       \<and> content_analysis r = \<lparr>passed = False, details = ''Not analyzed''\<rparr>"
    using first_failure_ends_the_run
      [of "sample_world\<lparr>mime_from_file := (\<lambda>_. Inr ''application/x-executable'')\<rparr>"
          "''/tmp/photo.JPG''"]
    by auto
next
  have type_ok: "\<And>w. mime_from_file w = mime_from_file sample_world \<Longrightarrow>
      fst (validate_file_type w ''/tmp/a.png'') = Inr (True, Some ''image'', Some ''image/png'')"
    by (simp add: validate_file_type_value sample_world_def file_ext_examples
        ALLOWED_EXTENSIONS_def mime_matches_extension_def mime_categories_def)
  have size_ok: "\<And>w. getsize w = getsize sample_world \<Longrightarrow>
      fst (validate_file_size w ''/tmp/a.png'' MAX_FILE_SIZE) = Inr (True, 1024)"
    by (simp add: validate_file_size_value sample_world_def MAX_FILE_SIZE_def)
  have clean: "\<And>w. clamd_exchange w = clamd_exchange sample_world \<Longrightarrow>
      fst (scan_for_malware w ''/tmp/a.png'') = Inr (True, ''Clean'')"
    by (simp add: scan_for_malware_value sample_world_def parse_response_def strip_def
        isspace_def sublist_Cons_right)
  have "fst (validate_file_size (sample_world\<lparr>getsize := (\<lambda>_. Inr 10485761)\<rparr>) ''/tmp/a.png''
          MAX_FILE_SIZE) = Inr (False, 10485761)"
    by (simp add: validate_file_size_value MAX_FILE_SIZE_def)
  then show "\<exists>r. fst (comprehensive_scan (sample_world\<lparr>getsize := (\<lambda>_. Inr 10485761)\<rparr>)
          ''/tmp/a.png'') = Inr r
       \<and> errors r = [''File too large''] \<and> file_size r = 10485761
       \<and> malware_scan r = \<lparr>passed = False, details = ''Not scanned''\<rparr>
       \<and> content_analysis r = \<lparr>passed = False, details = ''Not analyzed''\<rparr>"
    using first_failure_ends_the_run
      [of "sample_world\<lparr>getsize := (\<lambda>_. Inr 10485761)\<rparr>" "''/tmp/a.png''"]
      type_ok [of "sample_world\<lparr>getsize := (\<lambda>_. Inr 10485761)\<rparr>"]
    by auto
  have "fst (scan_for_malware (sample_world\<lparr>clamd_exchange := (\<lambda>_. Inr ''UNKNOWN COMMAND'')\<rparr>)
          ''/tmp/a.png'') = Inr (False, ''Scan failed'')"
    by (simp add: scan_for_malware_value parse_response_def strip_def isspace_def
        sublist_Cons_right)
  then show "\<exists>r. fst (comprehensive_scan
          (sample_world\<lparr>clamd_exchange := (\<lambda>_. Inr ''UNKNOWN COMMAND'')\<rparr>)
          ''/tmp/a.png'') = Inr r
       \<and> errors r = [''Malware detected: Scan failed'']
       \<and> content_analysis r = \<lparr>passed = False, details = ''Not analyzed''\<rparr>"
    using first_failure_ends_the_run
      [of "sample_world\<lparr>clamd_exchange := (\<lambda>_. Inr ''UNKNOWN COMMAND'')\<rparr>" "''/tmp/a.png''"]
      type_ok [of "sample_world\<lparr>clamd_exchange := (\<lambda>_. Inr ''UNKNOWN COMMAND'')\<rparr>"]
      size_ok [of "sample_world\<lparr>clamd_exchange := (\<lambda>_. Inr ''UNKNOWN COMMAND'')\<rparr>"]
    by auto
  have "fst (analyze_image_content
          (sample_world\<lparr>image_open := (\<lambda>_. Inr (sample_image\<lparr>img_size := (9, 9)\<rparr>))\<rparr>)
          ''/tmp/a.png'') = Inr (False, ''Image too small'')"
    by (simp add: analyze_image_content_value)
  then show "\<exists>r. fst (comprehensive_scan
          (sample_world\<lparr>image_open := (\<lambda>_. Inr (sample_image\<lparr>img_size := (9, 9)\<rparr>))\<rparr>)
          ''/tmp/a.png'') = Inr r
       \<and> errors r = [''Content issue: Image too small''] \<and> \<not> overall_safe r"
    using first_failure_ends_the_run
      [of "sample_world\<lparr>image_open := (\<lambda>_. Inr (sample_image\<lparr>img_size := (9, 9)\<rparr>))\<rparr>"
          "''/tmp/a.png''"]
      type_ok [of "sample_world\<lparr>image_open := (\<lambda>_. Inr (sample_image\<lparr>img_size := (9, 9)\<rparr>))\<rparr>"]
      size_ok [of "sample_world\<lparr>image_open := (\<lambda>_. Inr (sample_image\<lparr>img_size := (9, 9)\<rparr>))\<rparr>"]
      clean [of "sample_world\<lparr>image_open := (\<lambda>_. Inr (sample_image\<lparr>img_size := (9, 9)\<rparr>))\<rparr>"]
    by auto
qed

text \<open>
  The stages after hashing do not read the file through \<open>open\<close> nor use the digest.
\<close>

lemma stages_ignore_hashing:
  "validate_file_type (w\<lparr>open_rb := reads, sha256_hexdigest := digest\<rparr>) path
     = validate_file_type w path"
  "validate_file_size (w\<lparr>open_rb := reads, sha256_hexdigest := digest\<rparr>) path max_size
     = validate_file_size w path max_size"
  "scan_for_malware (w\<lparr>open_rb := reads, sha256_hexdigest := digest\<rparr>) path
     = scan_for_malware w path"
  "analyze_image_content (w\<lparr>open_rb := reads, sha256_hexdigest := digest\<rparr>) path
     = analyze_image_content w path"
  by (simp_all add: validate_file_type_def validate_file_type_try_def validate_file_size_def
      scan_for_malware_def scan_for_malware_try_def analyze_image_content_def
      analyze_image_content_try_def)

lemma initial_results_ignore_hashing:
  "initial_results (w\<lparr>open_rb := reads, sha256_hexdigest := digest\<rparr>) path
     = initial_results w path"
  by (simp add: initial_results_def)

lemma generate_file_hash_failure:
  "fst (generate_file_hash_try w path) = Inl e \<Longrightarrow>
   generate_file_hash w path
     = (Inr None, snd (generate_file_hash_try w path)
                  @ [(ERROR, ''Error generating file hash: '' @ str_of e)])"
  by (cases "generate_file_hash_try w path")
     (simp add: generate_file_hash_def try_except_Inl)

text \<open>
  C9. When hashing raises (at \<open>open\<close> or at a \<open>read\<close>), \<open>generate_file_hash\<close> returns
  \<open>None\<close>, the report has no hash, and the report is the one the run would have given
  with any other outcome of the hashing, but for the field \<open>file_hash\<close>: the same
  stages run with the same results, and the error list is the same.
\<close>

theorem hash_failure_does_not_stop_the_scan:
  "fst (generate_file_hash_try w path) = Inl e \<longrightarrow>
     fst (generate_file_hash w path) = Inr None
     \<and> (\<exists>r. fst (comprehensive_scan w path) = Inr r \<and> file_hash r = None
          \<and> (\<forall>reads digest. \<exists>r'.
                fst (comprehensive_scan (w\<lparr>open_rb := reads, sha256_hexdigest := digest\<rparr>) path)
                  = Inr r'
                \<and> r = r'\<lparr>file_hash := None\<rparr> \<and> errors r = errors r'))"
proof
  assume failure: "fst (generate_file_hash_try w path) = Inl e"
  obtain type_valid category mime l2 where
    T: "validate_file_type w path = (Inr (type_valid, category, mime), l2)"
    using validate_file_type_returns by blast
  obtain size_ok sz l3 where
    S: "validate_file_size w path MAX_FILE_SIZE = (Inr (size_ok, sz), l3)"
    using validate_file_size_returns by blast
  obtain malware_clean malware_details l4 where
    M: "scan_for_malware w path = (Inr (malware_clean, malware_details), l4)"
    using scan_for_malware_returns by blast
  obtain content_safe content_details l5 where
    I: "analyze_image_content w path = (Inr (content_safe, content_details), l5)"
    using analyze_image_content_returns by blast
  note H = generate_file_hash_failure [OF failure]
  have other: "\<exists>r'. fst (comprehensive_scan (w\<lparr>open_rb := reads, sha256_hexdigest := digest\<rparr>) path)
                  = Inr r'
                \<and> snd (fst (scan_try w path (initial_results w path))) = r'\<lparr>file_hash := None\<rparr>
                \<and> errors (snd (fst (scan_try w path (initial_results w path)))) = errors r'"
    for reads digest
  proof -
    obtain h' l1' where
      H': "generate_file_hash (w\<lparr>open_rb := reads, sha256_hexdigest := digest\<rparr>) path
             = (Inr h', l1')"
      using generate_file_hash_returns by blast
    show ?thesis
      by (simp add: comprehensive_scan_returns scan_try_def H H' T S M I Let_def
          stages_ignore_hashing initial_results_ignore_hashing initial_results_def)
  qed
  have "file_hash (snd (fst (scan_try w path (initial_results w path)))) = None"
    by (simp add: scan_try_def H T S M I Let_def initial_results_def)
  with other H show "fst (generate_file_hash w path) = Inr None
     \<and> (\<exists>r. fst (comprehensive_scan w path) = Inr r \<and> file_hash r = None
          \<and> (\<forall>reads digest. \<exists>r'.
                fst (comprehensive_scan (w\<lparr>open_rb := reads, sha256_hexdigest := digest\<rparr>) path)
                  = Inr r'
                \<and> r = r'\<lparr>file_hash := None\<rparr> \<and> errors r = errors r'))"
    by (simp add: comprehensive_scan_returns)
qed

text \<open>
  The end-to-end case: a valid PNG with the right extension, of allowed size, that the
  daemon finds clean and the heuristic finds safe.
\<close>

lemma sample_run:
  "\<exists>r. fst (comprehensive_scan sample_world ''/tmp/a.png'') = Inr r
     \<and> overall_safe r \<and> errors r = [] \<and> file_category r = Some ''image''
     \<and> file_hash r = Some ''ba7816bf8f01cfea414140de5dae2223b00361a396177a9cb410ff61f20015ad''"
proof -
  obtain l1 where H: "generate_file_hash sample_world ''/tmp/a.png''
      = (Inr (Some ''ba7816bf8f01cfea414140de5dae2223b00361a396177a9cb410ff61f20015ad''), l1)"
    using sample_stages(1) by (metis prod.collapse)
  obtain l2 where T: "validate_file_type sample_world ''/tmp/a.png''
      = (Inr (True, Some ''image'', Some ''image/png''), l2)"
    using sample_stages(2) by (metis prod.collapse)
  obtain l3 where S: "validate_file_size sample_world ''/tmp/a.png'' MAX_FILE_SIZE
      = (Inr (True, 1024), l3)"
    using sample_stages(3) by (metis prod.collapse)
  obtain l4 where M: "scan_for_malware sample_world ''/tmp/a.png'' = (Inr (True, ''Clean''), l4)"
    using sample_stages(4) by (metis prod.collapse)
  obtain l5 where I: "analyze_image_content sample_world ''/tmp/a.png''
      = (Inr (True, ''Image appears safe''), l5)"
    using sample_stages(5) by (metis prod.collapse)
  show ?thesis
    by (simp add: comprehensive_scan_returns scan_try_def H T S M I Let_def
        initial_results_def)
qed

theorem hash_failure_does_not_stop_the_scan_witness:
  "fst (generate_file_hash_try
      (sample_world\<lparr>open_rb := (\<lambda>_. Inr [Inr ''ab'', Inl (Exception ''Input/output error'')])\<rparr>)
      ''/tmp/a.png'') = Inl (Exception ''Input/output error'')
   \<and> fst (generate_file_hash
      (sample_world\<lparr>open_rb := (\<lambda>_. Inr [Inr ''ab'', Inl (Exception ''Input/output error'')])\<rparr>)
      ''/tmp/a.png'') = Inr None
   \<and> (\<exists>r. fst (comprehensive_scan
      (sample_world\<lparr>open_rb := (\<lambda>_. Inr [Inr ''ab'', Inl (Exception ''Input/output error'')])\<rparr>)
      ''/tmp/a.png'') = Inr r
      \<and> file_hash r = None \<and> overall_safe r \<and> errors r = [])"
proof -
  let ?w = "sample_world\<lparr>open_rb :=
              (\<lambda>_. Inr [Inr ''ab'', Inl (Exception ''Input/output error'')])\<rparr>"
  have failure: "fst (generate_file_hash_try ?w ''/tmp/a.png'')
      = Inl (Exception ''Input/output error'')"
    by (simp add: generate_file_hash_try_def)
  have restored: "?w\<lparr>open_rb := open_rb sample_world,
                 sha256_hexdigest := sha256_hexdigest sample_world\<rparr> = sample_world"
    by (simp add: sample_world_def)
  from hash_failure_does_not_stop_the_scan [of ?w "''/tmp/a.png''"
      "Exception ''Input/output error''"] failure
  obtain r where none: "fst (generate_file_hash ?w ''/tmp/a.png'') = Inr None"
    and r: "fst (comprehensive_scan ?w ''/tmp/a.png'') = Inr r" "file_hash r = None"
    and same: "\<And>reads digest. \<exists>r'.
        fst (comprehensive_scan (?w\<lparr>open_rb := reads, sha256_hexdigest := digest\<rparr>)
               ''/tmp/a.png'') = Inr r'
        \<and> r = r'\<lparr>file_hash := None\<rparr> \<and> errors r = errors r'"
    by blast
  from same [of "sha256_hexdigest sample_world" "open_rb sample_world"] sample_run
  have "overall_safe r \<and> errors r = []"
    unfolding restored by auto
  with failure none r show ?thesis
    by simp
qed

text \<open>
  C7. A file whose extension is \<open>jpg\<close> and whose sniffed type is
  \<open>application/x-executable\<close> is invalid, with no category. In general, when the sniffed
  type starts with none of the prefixes of the category that has the extension, type
  validation returns invalid with no category and the run ends at the type check with
  the error \<open>Invalid file type\<close>; and a file is only valid when its sniffed type starts with
  a prefix of a category that has its extension.
\<close>

theorem sniffed_type_decides:
  "(file_ext path = ''jpg'' \<and> mime_from_file w path = Inr ''application/x-executable'' \<longrightarrow>
      fst (validate_file_type w path) = Inr (False, None, Some ''application/x-executable''))
   \<and> (mime_from_file w path = Inr mime
       \<and> (\<forall>(category, extensions) \<in> set ALLOWED_EXTENSIONS.
             file_ext path \<in> set extensions \<longrightarrow> \<not> mime_matches_extension mime category)
      \<longrightarrow> fst (validate_file_type w path) = Inr (False, None, Some mime)
          \<and> (\<exists>r. fst (comprehensive_scan w path) = Inr r
                \<and> \<not> file_type_valid r \<and> file_category r = None \<and> mime_type r = Some mime
                \<and> errors r = [''Invalid file type''] \<and> \<not> overall_safe r))
   \<and> (fst (validate_file_type w path) = Inr (True, c, m) \<longrightarrow>
        (\<exists>category extensions mime'.
           c = Some category \<and> m = Some mime' \<and> mime_from_file w path = Inr mime'
           \<and> (category, extensions) \<in> set ALLOWED_EXTENSIONS
           \<and> file_ext path \<in> set extensions
           \<and> mime_matches_extension mime' category))"
proof -
  have jpg: "file_ext path = ''jpg'' \<and> mime_from_file w path = Inr ''application/x-executable''
      \<longrightarrow> fst (validate_file_type w path) = Inr (False, None, Some ''application/x-executable'')"
  proof
    assume "file_ext path = ''jpg'' \<and> mime_from_file w path = Inr ''application/x-executable''"
    moreover have "first_category ALLOWED_EXTENSIONS (file_ext path) ''application/x-executable''
        = None"
      by (rule first_category_None) (auto dest: executable_matches_nothing)
    ultimately show "fst (validate_file_type w path)
        = Inr (False, None, Some ''application/x-executable'')"
      by (simp add: validate_file_type_value)
  qed
  have mismatch: "mime_from_file w path = Inr mime
       \<and> (\<forall>(category, extensions) \<in> set ALLOWED_EXTENSIONS.
             file_ext path \<in> set extensions \<longrightarrow> \<not> mime_matches_extension mime category)
      \<longrightarrow> fst (validate_file_type w path) = Inr (False, None, Some mime)
          \<and> (\<exists>r. fst (comprehensive_scan w path) = Inr r
                \<and> \<not> file_type_valid r \<and> file_category r = None \<and> mime_type r = Some mime
                \<and> errors r = [''Invalid file type''] \<and> \<not> overall_safe r)"
  proof
    assume a: "mime_from_file w path = Inr mime
         \<and> (\<forall>(category, extensions) \<in> set ALLOWED_EXTENSIONS.
               file_ext path \<in> set extensions \<longrightarrow> \<not> mime_matches_extension mime category)"
    then have none: "first_category ALLOWED_EXTENSIONS (file_ext path) mime = None"
      by (intro first_category_None) simp
    with a have invalid: "fst (validate_file_type w path) = Inr (False, None, Some mime)"
      by (simp add: validate_file_type_value)
    obtain h l1 where H: "generate_file_hash w path = (Inr h, l1)"
      using generate_file_hash_returns by blast
    obtain l2 where T: "validate_file_type w path = (Inr (False, None, Some mime), l2)"
      using invalid by (metis prod.collapse)
    have "\<exists>r. fst (comprehensive_scan w path) = Inr r
            \<and> \<not> file_type_valid r \<and> file_category r = None \<and> mime_type r = Some mime
            \<and> errors r = [''Invalid file type''] \<and> \<not> overall_safe r"
      by (simp add: comprehensive_scan_returns scan_try_def H T Let_def initial_results_def)
    with invalid show "fst (validate_file_type w path) = Inr (False, None, Some mime)
            \<and> (\<exists>r. fst (comprehensive_scan w path) = Inr r
                  \<and> \<not> file_type_valid r \<and> file_category r = None \<and> mime_type r = Some mime
                  \<and> errors r = [''Invalid file type''] \<and> \<not> overall_safe r)"
      by simp
  qed
  have accepted: "fst (validate_file_type w path) = Inr (True, c, m) \<longrightarrow>
        (\<exists>category extensions mime'.
           c = Some category \<and> m = Some mime' \<and> mime_from_file w path = Inr mime'
           \<and> (category, extensions) \<in> set ALLOWED_EXTENSIONS
           \<and> file_ext path \<in> set extensions
           \<and> mime_matches_extension mime' category)"
  proof
    assume v: "fst (validate_file_type w path) = Inr (True, c, m)"
    then obtain mime' where sniffed: "mime_from_file w path = Inr mime'"
      by (cases "mime_from_file w path") (simp_all add: validate_file_type_value)
    with v obtain category where
      found: "first_category ALLOWED_EXTENSIONS (file_ext path) mime' = Some category"
      by (cases "first_category ALLOWED_EXTENSIONS (file_ext path) mime'")
         (simp_all add: validate_file_type_value)
    from v sniffed found have "c = Some category" and "m = Some mime'"
      by (simp_all add: validate_file_type_value)
    with sniffed first_category_Some [OF found]
    show "\<exists>category extensions mime'.
             c = Some category \<and> m = Some mime' \<and> mime_from_file w path = Inr mime'
             \<and> (category, extensions) \<in> set ALLOWED_EXTENSIONS
             \<and> file_ext path \<in> set extensions
             \<and> mime_matches_extension mime' category"
      by auto
  qed
  show ?thesis
    by (rule conjI [OF jpg conjI [OF mismatch accepted]])
qed

theorem sniffed_type_decides_witness:
  "file_ext ''/tmp/photo.JPG'' = ''jpg''
   \<and> fst (validate_file_type
         (sample_world\<lparr>mime_from_file := (\<lambda>_. Inr ''application/x-executable'')\<rparr>)
         ''/tmp/photo.JPG'') = Inr (False, None, Some ''application/x-executable'')
   \<and> (\<exists>r. fst (comprehensive_scan sample_world ''/tmp/report.pdf'') = Inr r
         \<and> \<not> file_type_valid r \<and> file_category r = None \<and> mime_type r = Some ''image/png''
         \<and> errors r = [''Invalid file type''])
   \<and> mime_matches_extension ''image/png'' ''image''"
proof (intro conjI)
  show ext: "file_ext ''/tmp/photo.JPG'' = ''jpg''"
    by (rule file_ext_examples)
  show "fst (validate_file_type
         (sample_world\<lparr>mime_from_file := (\<lambda>_. Inr ''application/x-executable'')\<rparr>)
         ''/tmp/photo.JPG'') = Inr (False, None, Some ''application/x-executable'')"
    using ext sniffed_type_decides
      [of "''/tmp/photo.JPG''"
          "sample_world\<lparr>mime_from_file := (\<lambda>_. Inr ''application/x-executable'')\<rparr>"]
    by simp
  have mismatch: "\<forall>(category, extensions) \<in> set ALLOWED_EXTENSIONS.
         file_ext ''/tmp/report.pdf'' \<in> set extensions \<longrightarrow>
         \<not> mime_matches_extension ''image/png'' category"
    by (simp add: file_ext_examples ALLOWED_EXTENSIONS_def mime_matches_extension_def
        mime_categories_def)
  have "mime_from_file sample_world ''/tmp/report.pdf'' = Inr ''image/png''"
    by (simp add: sample_world_def)
  with mismatch show "\<exists>r. fst (comprehensive_scan sample_world ''/tmp/report.pdf'') = Inr r
         \<and> \<not> file_type_valid r \<and> file_category r = None \<and> mime_type r = Some ''image/png''
         \<and> errors r = [''Invalid file type'']"
    using sniffed_type_decides
      [of "''/tmp/report.pdf''" sample_world "''image/png''", THEN conjunct2, THEN conjunct1]
    by blast
  show "mime_matches_extension ''image/png'' ''image''"
    using sniffed_type_decides
      [of "''/tmp/a.png''" sample_world "''image/png''" "Some ''image''" "Some ''image/png''",
       THEN conjunct2, THEN conjunct2]
      sample_stages(2)
    by auto
qed

end
